theory Spec2Isabelle
  imports Main
begin

section \<open>The file system and Python's text layer\<close>

text \<open>
  The library wraps a handful of calls of the Python runtime: \<^verbatim>\<open>os.path.exists\<close>,
  \<^verbatim>\<open>os.remove\<close> and the builtin \<^verbatim>\<open>open\<close> in the text modes \<^verbatim>\<open>"r"\<close>, \<^verbatim>\<open>"w"\<close> and
  \<^verbatim>\<open>"a"\<close> (\<^verbatim>\<open>OpenModes.READ\<close> has the value \<^verbatim>\<open>"r"\<close>, \<^verbatim>\<open>OpenModes.WRITE\<close> and its alias
  \<^verbatim>\<open>OpenModes.CLEAR\<close> the value \<^verbatim>\<open>"w"\<close>). The disk is a map from paths to the characters stored under them: a flat
  store of regular files that the process may read, write, create and remove, so the only
  failure of the runtime that appears is the missing file. A string is the list of its
  characters, and what the text layer encodes on writing it decodes to the same characters
  on reading. Line separators are those of a POSIX host (\<^verbatim>\<open>os.linesep = "\n"\<close>): writing
  in text mode stores the string as it is.
  Reading in text mode uses the default \<^verbatim>\<open>newline=None\<close> of \<^verbatim>\<open>open\<close>, that is universal
  newlines: a carriage return, alone or followed by a line feed, reaches the caller as one
  line feed.
\<close>

type_synonym disk = "string \<rightharpoonup> string"

datatype error = FileNotFoundError | AttributeError | JSONDecodeError

abbreviation LF :: char where "LF \<equiv> CHR 0x0A"
abbreviation CR :: char where "CR \<equiv> CHR 0x0D"

definition os_path_exists :: "disk \<Rightarrow> string \<Rightarrow> bool" where
  "os_path_exists d p = (d p \<noteq> None)"

definition os_remove :: "disk \<Rightarrow> string \<Rightarrow> error + disk" where
  "os_remove d p = (case d p of None \<Rightarrow> Inl FileNotFoundError | Some _ \<Rightarrow> Inr (d(p := None)))"

fun universal_newlines :: "string \<Rightarrow> string" where
  "universal_newlines [] = []"
| "universal_newlines [c] = (if c = CR then [LF] else [c])"
| "universal_newlines (c # d # cs) =
     (if c = CR \<and> d = LF then LF # universal_newlines cs
      else if c = CR then LF # universal_newlines (d # cs)
      else c # universal_newlines (d # cs))"

text \<open>\<^verbatim>\<open>open(p, mode="r")\<close> followed by \<^verbatim>\<open>read()\<close>: the whole text of the file.\<close>

definition open_read :: "disk \<Rightarrow> string \<Rightarrow> error + string" where
  "open_read d p =
     (case d p of None \<Rightarrow> Inl FileNotFoundError | Some stored \<Rightarrow> Inr (universal_newlines stored))"

text \<open>\<^verbatim>\<open>open(p, mode="w")\<close>, \<^verbatim>\<open>write(s)\<close>, \<^verbatim>\<open>close()\<close>: the file is truncated, then holds \<open>s\<close>.\<close>

definition open_write :: "disk \<Rightarrow> string \<Rightarrow> string \<Rightarrow> disk" where
  "open_write d p s = d(p \<mapsto> s)"

text \<open>\<^verbatim>\<open>open(p, mode="a").close()\<close>: the file is created empty when absent, else left alone.\<close>

definition open_append :: "disk \<Rightarrow> string \<Rightarrow> disk" where
  "open_append d p = (case d p of None \<Rightarrow> d(p \<mapsto> []) | Some _ \<Rightarrow> d)"

text \<open>
  \<^verbatim>\<open>readlines()\<close> cuts the text after every line feed and keeps the line feed at the end of
  its line; text after the last line feed is a final line without one.
\<close>

fun readlines :: "string \<Rightarrow> string list" where
  "readlines [] = []"
| "readlines (c # cs) =
     (if c = LF then [LF] # readlines cs
      else (case readlines cs of [] \<Rightarrow> [[c]] | l # ls \<Rightarrow> (c # l) # ls))"

text \<open>\<^verbatim>\<open>s.replace("\n", "")\<close> removes every line feed of \<open>s\<close>.\<close>

definition replace_newline :: "string \<Rightarrow> string" where
  "replace_newline s = filter (\<lambda>c. c \<noteq> LF) s"

text \<open>\<^verbatim>\<open>xs.pop(i)\<close> for an index inside the list, which is the only way the loop calls it.\<close>

definition pop :: "nat \<Rightarrow> 'a list \<Rightarrow> 'a list" where
  "pop i xs = take i xs @ drop (Suc i) xs"

section \<open>The file handle\<close>

text \<open>
  The attribute \<^verbatim>\<open>cache\<close> is only annotated in the class body, so an instance has it from
  the first assignment on: \<open>None\<close> is the handle that never assigned it, and reading it
  then raises \<^verbatim>\<open>AttributeError\<close>.
\<close>

record File =
  name :: string
  allow_non_existing_file :: bool
  cache :: "string list option"

record state =
  self :: File
  disk :: disk

text \<open>\<^verbatim>\<open>__str__\<close> returns the name, and \<^verbatim>\<open>get_file_name\<close> is \<^verbatim>\<open>str(self)\<close>.\<close>

definition str :: "File \<Rightarrow> string" where
  "str f = name f"

definition get_file_name :: "File \<Rightarrow> string" where
  "get_file_name f = str f"

definition touch :: "state \<Rightarrow> state" where
  "touch st = st\<lparr>disk := open_append (disk st) (get_file_name (self st))\<rparr>"

definition exists :: "bool \<Rightarrow> state \<Rightarrow> bool \<times> state" where
  "exists touch_if_false st =
     (if os_path_exists (disk st) (name (self st))
      then (True, if touch_if_false then touch st else st)
      else (False, st))"

text \<open>
  The loop of \<^verbatim>\<open>refresh\<close> walks \<^verbatim>\<open>enumerate(self.cache)\<close> while it changes the list: the list
  iterator and the counter of \<^verbatim>\<open>enumerate\<close> advance together, and the iteration ends when
  the position reaches the current length. \<open>lines\<close> is the list held by \<^verbatim>\<open>self.cache\<close>.
\<close>

function refresh_loop :: "bool \<Rightarrow> nat \<Rightarrow> string list \<Rightarrow> string list" where
  "refresh_loop slim index lines =
     (if index < length lines
      then (if slim \<and> lines ! index = []
            then refresh_loop slim (Suc index) (pop index lines)
            else refresh_loop slim (Suc index) (lines[index := replace_newline (lines ! index)]))
      else lines)"
  by pat_completeness auto
termination
  by (relation "measure (\<lambda>(slim, index, lines). length lines - index)") (auto simp: pop_def)

declare refresh_loop.simps [simp del]

definition refresh :: "bool \<Rightarrow> state \<Rightarrow> (error + unit) \<times> state" where
  "refresh slim st =
     (case exists False st of
        (False, st1) \<Rightarrow> (Inr (), st1)
      | (True, st1) \<Rightarrow>
          (case open_read (disk st1) (get_file_name (self st1)) of
             Inl e \<Rightarrow> (Inl e, st1)
           | Inr text \<Rightarrow>
               (Inr (), st1\<lparr>self := (self st1)\<lparr>cache := Some (refresh_loop slim 0 (readlines text))\<rparr>\<rparr>)))"

text \<open>The constructor stores the two arguments and refreshes with the default \<open>slim\<close>.\<close>

definition init :: "string \<Rightarrow> bool \<Rightarrow> disk \<Rightarrow> (error + unit) \<times> state" where
  "init n allow d =
     refresh False \<lparr>self = \<lparr>name = n, allow_non_existing_file = allow, cache = None\<rparr>, disk = d\<rparr>"

definition get_cache :: "state \<Rightarrow> (error + string list) \<times> state" where
  "get_cache st =
     (case cache (self st) of None \<Rightarrow> (Inl AttributeError, st) | Some c \<Rightarrow> (Inr c, st))"

definition write_to_file :: "string \<Rightarrow> state \<Rightarrow> state" where
  "write_to_file string st = st\<lparr>disk := open_write (disk st) (get_file_name (self st)) string\<rparr>"

definition clear_file :: "state \<Rightarrow> state" where
  "clear_file st = st\<lparr>disk := open_write (disk st) (get_file_name (self st)) []\<rparr>"

definition get_file_contents_singlestring :: "state \<Rightarrow> (error + string) \<times> state" where
  "get_file_contents_singlestring st =
     (case open_read (disk st) (get_file_name (self st)) of
        Inl e \<Rightarrow> (Inl e, st)
      | Inr data \<Rightarrow> (Inr data, st))"

definition delete :: "state \<Rightarrow> (error + bool) \<times> state" where
  "delete st =
     (case exists False st of
        (True, st1) \<Rightarrow>
          (case os_remove (disk st1) (get_file_name (self st1)) of
             Inl e \<Rightarrow> (Inl e, st1)
           | Inr d \<Rightarrow> (Inr True, st1\<lparr>disk := d\<rparr>))
      | (False, st1) \<Rightarrow> (Inr False, st1))"

text \<open>
  \<^verbatim>\<open>json.loads\<close> is the decoder of the standard library, not code of this package: it is a
  parameter, a function that returns \<open>None\<close> where the decoder raises
  \<^verbatim>\<open>JSONDecodeError\<close>.
\<close>

definition load_from_json :: "(string \<Rightarrow> 'j option) \<Rightarrow> state \<Rightarrow> (error + 'j) \<times> state" where
  "load_from_json loads st =
     (case get_file_contents_singlestring st of
        (Inl e, st1) \<Rightarrow> (Inl e, st1)
      | (Inr data, st1) \<Rightarrow>
          (case loads data of None \<Rightarrow> (Inl JSONDecodeError, st1) | Some v \<Rightarrow> (Inr v, st1)))"


text \<open>
  The methods that work on the disk or on the cache, as calls on a handle, and the state
  each leaves behind: \<open>run\<close> is the dispatcher used to speak about all of them at once.
\<close>

datatype call =
    Touch | Exists bool | Refresh bool | Get_cache | Write_to_file string | Clear_file
  | Get_file_contents_singlestring | Delete | Load_from_json

fun run :: "(string \<Rightarrow> 'j option) \<Rightarrow> call \<Rightarrow> state \<Rightarrow> state" where
  "run loads Touch st = touch st"
| "run loads (Exists touch_if_false) st = snd (exists touch_if_false st)"
| "run loads (Refresh slim) st = snd (refresh slim st)"
| "run loads Get_cache st = snd (get_cache st)"
| "run loads (Write_to_file string) st = write_to_file string st"
| "run loads Clear_file st = clear_file st"
| "run loads Get_file_contents_singlestring st = snd (get_file_contents_singlestring st)"
| "run loads Delete st = snd (delete st)"
| "run loads Load_from_json st = snd (load_from_json loads st)"

fun is_refresh :: "call \<Rightarrow> bool" where
  "is_refresh (Refresh slim) = True"
| "is_refresh c = False"

section \<open>A decoder to run the JSON examples\<close>

text \<open>
  Modelled from the spec: the standard JSON decoder, which the package imports and does not
  contain. \<open>loads_plain\<close> is one instance of the parameter \<open>loads\<close>, used to run
  \<open>load_from_json\<close> on concrete files: it decodes the documents built from objects, arrays,
  strings without escapes, integers and the literals \<^verbatim>\<open>null\<close>, \<^verbatim>\<open>true\<close>, \<^verbatim>\<open>false\<close>, with
  white space between the tokens, and rejects every other text. An object becomes the list
  of its members in the order of first appearance, a repeated key keeping its last value, as
  a Python dictionary does. The recursion is bounded by a counter that starts above twice
  the length of the text.
\<close>

datatype json =
    JNull | JBool bool | JInt int | JString string | JArray "json list"
  | JObject "(string \<times> json) list"

abbreviation DQ :: char where "DQ \<equiv> CHR 0x22"
abbreviation BACKSLASH :: char where "BACKSLASH \<equiv> CHR 0x5C"

definition is_ws :: "char \<Rightarrow> bool" where
  "is_ws c = (c = CHR '' '' \<or> c = LF \<or> c = CR \<or> c = CHR 0x09)"

definition skip_ws :: "string \<Rightarrow> string" where
  "skip_ws s = dropWhile is_ws s"

definition is_digit :: "char \<Rightarrow> bool" where
  "is_digit c = (c \<in> set ''0123456789'')"

definition digits_value :: "string \<Rightarrow> int" where
  "digits_value ds = foldl (\<lambda>a c. 10 * a + (of_char c - 48)) 0 ds"

fun scan_string :: "string \<Rightarrow> (string \<times> string) option" where
  "scan_string [] = None"
| "scan_string (c # cs) =
     (if c = DQ then Some ([], cs)
      else if c = BACKSLASH \<or> (of_char c :: nat) < 32 then None
      else (case scan_string cs of None \<Rightarrow> None | Some (k, r) \<Rightarrow> Some (c # k, r)))"

definition scan_int :: "string \<Rightarrow> (int \<times> string) option" where
  "scan_int s =
     (let neg = (s \<noteq> [] \<and> hd s = CHR ''-'');
          body = (if neg then tl s else s);
          ds = takeWhile is_digit body
      in if ds = [] then None
         else if hd ds = CHR ''0''
         then Some (0, tl body)
         else Some ((if neg then - digits_value ds else digits_value ds),
                    dropWhile is_digit body))"

fun dict_store :: "string \<Rightarrow> json \<Rightarrow> (string \<times> json) list \<Rightarrow> (string \<times> json) list" where
  "dict_store k v [] = [(k, v)]"
| "dict_store k v ((k', v') # m) = (if k = k' then (k, v) # m else (k', v') # dict_store k v m)"

fun parse_value :: "nat \<Rightarrow> string \<Rightarrow> (json \<times> string) option"
  and parse_elements :: "nat \<Rightarrow> json list \<Rightarrow> string \<Rightarrow> (json list \<times> string) option"
  and parse_members ::
    "nat \<Rightarrow> (string \<times> json) list \<Rightarrow> string \<Rightarrow> ((string \<times> json) list \<times> string) option"
where
  "parse_value 0 s = None"
| "parse_value (Suc n) s =
     (if take 4 s = ''null'' then Some (JNull, drop 4 s)
      else if take 4 s = ''true'' then Some (JBool True, drop 4 s)
      else if take 5 s = ''false'' then Some (JBool False, drop 5 s)
      else if take 1 s = [DQ] then
        (case scan_string (drop 1 s) of None \<Rightarrow> None | Some (k, r) \<Rightarrow> Some (JString k, r))
      else if take 1 s = ''['' then
        (if take 1 (skip_ws (drop 1 s)) = '']''
         then Some (JArray [], drop 1 (skip_ws (drop 1 s)))
         else (case parse_elements n [] (skip_ws (drop 1 s)) of
                 None \<Rightarrow> None | Some (vs, r) \<Rightarrow> Some (JArray vs, r)))
      else if take 1 s = ''{'' then
        (if take 1 (skip_ws (drop 1 s)) = ''}''
         then Some (JObject [], drop 1 (skip_ws (drop 1 s)))
         else (case parse_members n [] (skip_ws (drop 1 s)) of
                 None \<Rightarrow> None | Some (m, r) \<Rightarrow> Some (JObject m, r)))
      else (case scan_int s of None \<Rightarrow> None | Some (i, r) \<Rightarrow> Some (JInt i, r)))"
| "parse_elements 0 acc s = None"
| "parse_elements (Suc n) acc s =
     (case parse_value n s of
        None \<Rightarrow> None
      | Some (v, r) \<Rightarrow>
          (if take 1 (skip_ws r) = '',''
           then parse_elements n (acc @ [v]) (skip_ws (drop 1 (skip_ws r)))
           else if take 1 (skip_ws r) = '']'' then Some (acc @ [v], drop 1 (skip_ws r))
           else None))"
| "parse_members 0 acc s = None"
| "parse_members (Suc n) acc s =
     (if take 1 s = [DQ] then
        (case scan_string (drop 1 s) of
           None \<Rightarrow> None
         | Some (k, r) \<Rightarrow>
             (if take 1 (skip_ws r) = '':'' then
                (case parse_value n (skip_ws (drop 1 (skip_ws r))) of
                   None \<Rightarrow> None
                 | Some (v, r') \<Rightarrow>
                     (if take 1 (skip_ws r') = '','' then
                        parse_members n (dict_store k v acc) (skip_ws (drop 1 (skip_ws r')))
                      else if take 1 (skip_ws r') = ''}'' then
                        Some (dict_store k v acc, drop 1 (skip_ws r'))
                      else None))
              else None))
      else None)"


section \<open>Reading lines and the loop of refresh\<close>

lemma readlines_nonempty: "[] \<notin> set (readlines s)"
  by (induction s) (auto split: list.splits)

text \<open>
  While every line from the current position on is non-empty the loop never pops: it
  replaces the lines one by one and leaves the part before the position alone.
\<close>

lemma refresh_loop_no_empty:
  "\<forall>j. index \<le> j \<and> j < length lines \<longrightarrow> lines ! j \<noteq> [] \<Longrightarrow>
   refresh_loop slim index lines = take index lines @ map replace_newline (drop index lines)"
proof (induction slim index lines rule: refresh_loop.induct)
  case (1 slim index lines)
  show ?case
  proof (cases "index < length lines")
    case False
    then show ?thesis by (simp add: refresh_loop.simps [of slim index lines])
  next
    case True
    let ?upd = "lines[index := replace_newline (lines ! index)]"
    from True "1.prems" have ne: "lines ! index \<noteq> []" by simp
    have later: "\<forall>j. Suc index \<le> j \<and> j < length ?upd \<longrightarrow> ?upd ! j \<noteq> []"
      using "1.prems" by simp
    from True ne have "refresh_loop slim index lines = refresh_loop slim (Suc index) ?upd"
      by (simp add: refresh_loop.simps [of slim index lines])
    also have "\<dots> = take (Suc index) ?upd @ map replace_newline (drop (Suc index) ?upd)"
      using "1.IH"(2) [OF True _ later] ne by simp
    also have "\<dots> = take index lines @ map replace_newline (drop index lines)"
      using True by (simp add: take_Suc_conv_app_nth Cons_nth_drop_Suc [symmetric])
    finally show ?thesis .
  qed
qed

lemma refresh_loop_readlines:
  "refresh_loop slim 0 (readlines s) = map replace_newline (readlines s)"
proof -
  have "\<forall>j. 0 \<le> j \<and> j < length (readlines s) \<longrightarrow> readlines s ! j \<noteq> []"
    using readlines_nonempty [of s] by (metis nth_mem)
  from refresh_loop_no_empty [OF this] show ?thesis by simp
qed

section \<open>The methods on an absent and on a present file\<close>

lemma exists_False: "exists False st = (disk st (name (self st)) \<noteq> None, st)"
  by (simp add: exists_def os_path_exists_def)

lemma exists_absent:
  "disk st (name (self st)) = None \<Longrightarrow> exists touch_if_false st = (False, st)"
  by (simp add: exists_def os_path_exists_def)

lemma exists_present:
  "disk st (name (self st)) = Some stored \<Longrightarrow> exists touch_if_false st = (True, st)"
  by (simp add: exists_def os_path_exists_def touch_def open_append_def get_file_name_def str_def)

lemma refresh_absent:
  "disk st (name (self st)) = None \<Longrightarrow> refresh slim st = (Inr (), st)"
  by (simp add: refresh_def exists_False)

lemma refresh_present:
  "disk st (name (self st)) = Some stored \<Longrightarrow>
   refresh slim st =
     (Inr (), st\<lparr>self := (self st)\<lparr>cache :=
        Some (map replace_newline (readlines (universal_newlines stored)))\<rparr>\<rparr>)"
  by (simp add: refresh_def exists_False open_read_def get_file_name_def str_def refresh_loop_readlines)

lemma delete_absent: "disk st (name (self st)) = None \<Longrightarrow> delete st = (Inr False, st)"
  by (simp add: delete_def exists_False)

lemma delete_present:
  "disk st (name (self st)) = Some stored \<Longrightarrow>
   delete st = (Inr True, st\<lparr>disk := (disk st)(name (self st) := None)\<rparr>)"
  by (simp add: delete_def exists_False os_remove_def get_file_name_def str_def)

lemma delete_self: "self (snd (delete st)) = self st"
  by (cases "disk st (name (self st))") (simp_all add: delete_absent delete_present)


lemma get_file_contents_singlestring_state: "snd (get_file_contents_singlestring st) = st"
  by (simp add: get_file_contents_singlestring_def split: sum.splits)

lemma load_from_json_state: "snd (load_from_json loads st) = st"
  by (simp add: load_from_json_def get_file_contents_singlestring_def
      split: sum.splits option.splits)



section \<open>The claims of the specification\<close>

text \<open>
  C1. The specification says that \<open>exists\<close> with \<open>touch_if_false\<close> set, on a path that is
  absent, answers false and creates the empty file, so that the next \<open>exists\<close> answers true.
  The code calls \<open>touch\<close> inside the branch of the existing path: on the absent path it
  answers false, the path stays absent, and the next call answers false again. The run
  below is a handle made on an empty disk.
\<close>

theorem exists_touch_if_false_absent_path:
  "(let st0 = snd (init ''test.txt'' True Map.empty);
        (r1, st1) = exists True st0;
        (r2, st2) = exists False st1
    in r1 = False \<and> disk st1 ''test.txt'' = None \<and> r2 = False)"
  by (simp add: init_def refresh_def exists_def os_path_exists_def)

text \<open>
  C2. The specification says that \<open>refresh\<close> with \<open>slim\<close> set drops the lines that are empty
  once their line feed is stripped. The code tests the line before it strips it, and no
  line that was read is empty: the file of the three lines \<^verbatim>\<open>a\<close>, the empty line and \<^verbatim>\<open>b c\<close>
  gives a cache that still holds the empty string.
\<close>

theorem refresh_slim_keeps_blank_line:
  "cache (self (snd (refresh True (snd (init ''test.txt'' True
      [''test.txt'' \<mapsto> ''a'' @ [LF, LF] @ ''b c'' @ [LF]]))))) = Some [''a'', [], ''b c'']"
  by (simp add: init_def refresh_def exists_def os_path_exists_def open_read_def
      get_file_name_def str_def refresh_loop.simps replace_newline_def pop_def)

text \<open>
  C3. The specification says that a handle made on an absent path and then touched exists
  and has the empty cache. The file does exist after \<open>touch\<close>, but the constructor's refresh
  returned before it assigned \<open>cache\<close> and \<open>touch\<close> does not assign it: \<open>get_cache\<close> raises
  \<^verbatim>\<open>AttributeError\<close>.
\<close>

theorem get_cache_after_touch_unset:
  "(let st0 = snd (init ''test.txt'' True Map.empty); st1 = touch st0
    in fst (exists False st1) = True \<and> fst (get_cache st1) = Inl AttributeError)"
  by (simp add: init_def refresh_def exists_def os_path_exists_def touch_def open_append_def
      get_file_name_def str_def get_cache_def)





text \<open>
  C6. \<open>write_to_file\<close> and \<open>clear_file\<close> leave the handle, so also its cache, as it was and
  change the disk at the handle's path only, which then holds the written string, or the
  empty one. No method other than \<open>refresh\<close> changes the handle.
\<close>

theorem cache_frame:
  "self (write_to_file s st) = self st \<and>
   disk (write_to_file s st) = (disk st)(name (self st) \<mapsto> s) \<and>
   self (clear_file st) = self st \<and>
   disk (clear_file st) = (disk st)(name (self st) \<mapsto> []) \<and>
   (\<not> is_refresh c \<longrightarrow> self (run loads c st) = self st)"
proof -
  have "self (run loads c st) = self st" if "\<not> is_refresh c"
    using that
    by (cases c)
      (simp_all add: touch_def exists_def get_cache_def write_to_file_def clear_file_def
        get_file_contents_singlestring_state delete_self load_from_json_state
        split: option.splits)
  then show ?thesis
    by (simp add: write_to_file_def clear_file_def open_write_def get_file_name_def str_def)
qed

text \<open>A write through a handle whose cache holds one line: the cache is still that line.\<close>

theorem cache_frame_witness:
  "\<not> is_refresh (Write_to_file ''new'') \<and>
   cache (self (run (\<lambda>s. None :: unit option) (Write_to_file ''new'')
      \<lparr>self = \<lparr>name = ''test.txt'', allow_non_existing_file = True, cache = Some [''old'']\<rparr>,
       disk = [''test.txt'' \<mapsto> ''old'']\<rparr>)) = Some [''old''] \<and>
   disk (write_to_file ''new''
      \<lparr>self = \<lparr>name = ''test.txt'', allow_non_existing_file = True, cache = Some [''old'']\<rparr>,
       disk = [''test.txt'' \<mapsto> ''old'']\<rparr>) ''test.txt'' = Some ''new''"
proof -
  let ?st = "\<lparr>self = \<lparr>name = ''test.txt'', allow_non_existing_file = True,
      cache = Some [''old'']\<rparr>, disk = [''test.txt'' \<mapsto> ''old'']\<rparr>"
  have h: "\<not> is_refresh (Write_to_file ''new'')" by simp
  from cache_frame [of "''new''" ?st "Write_to_file ''new''" "\<lambda>s. None :: unit option"] h
  show ?thesis by simp
qed

text \<open>
  C7. On an existing file \<open>delete\<close> returns true, removes the path and nothing else, and
  \<open>exists\<close> is false afterwards. On an absent file it returns false, raises nothing and
  leaves the state as it was. A second \<open>delete\<close> in a row returns false in both cases.
\<close>

theorem delete_spec:
  "(disk st (name (self st)) \<noteq> None \<longrightarrow>
      fst (delete st) = Inr True \<and>
      disk (snd (delete st)) = (disk st)(name (self st) := None) \<and>
      fst (exists False (snd (delete st))) = False) \<and>
   (disk st (name (self st)) = None \<longrightarrow> delete st = (Inr False, st)) \<and>
   fst (delete (snd (delete st))) = Inr False"
proof (cases "disk st (name (self st))")
  case None
  then show ?thesis by (simp add: delete_absent)
next
  case (Some stored)
  let ?st = "st\<lparr>disk := (disk st)(name (self st) := None)\<rparr>"
  have gone: "disk ?st (name (self ?st)) = None" by simp
  from Some show ?thesis
    by (simp add: delete_present delete_absent [OF gone] exists_False)
qed

text \<open>One handle on a disk that holds its file, one on the empty disk.\<close>

theorem delete_spec_witness:
  "fst (delete \<lparr>self = \<lparr>name = ''test.txt'', allow_non_existing_file = True, cache = None\<rparr>,
                disk = [''test.txt'' \<mapsto> ''cool'']\<rparr>) = Inr True \<and>
   fst (exists False (snd (delete
        \<lparr>self = \<lparr>name = ''test.txt'', allow_non_existing_file = True, cache = None\<rparr>,
         disk = [''test.txt'' \<mapsto> ''cool'']\<rparr>))) = False \<and>
   fst (delete (snd (delete
        \<lparr>self = \<lparr>name = ''test.txt'', allow_non_existing_file = True, cache = None\<rparr>,
         disk = [''test.txt'' \<mapsto> ''cool'']\<rparr>))) = Inr False \<and>
   fst (delete \<lparr>self = \<lparr>name = ''test.txt'', allow_non_existing_file = True, cache = None\<rparr>,
                disk = Map.empty\<rparr>) = Inr False"
proof -
  let ?h = "\<lparr>name = ''test.txt'', allow_non_existing_file = True, cache = None\<rparr>"
  let ?there = "\<lparr>self = ?h, disk = [''test.txt'' \<mapsto> ''cool'']\<rparr>"
  let ?gone = "\<lparr>self = ?h, disk = Map.empty\<rparr>"
  have there: "disk ?there (name (self ?there)) \<noteq> None" by simp
  have gone: "disk ?gone (name (self ?gone)) = None" by simp
  from delete_spec [of ?there] there delete_spec [of ?gone] gone show ?thesis
    by simp
qed



text \<open>
  C9. \<open>refresh\<close> raises nothing, and a second \<open>refresh\<close> right after the first returns
  the same result and the same state, so the same cache.
\<close>

theorem refresh_idempotent:
  "fst (refresh slim st) = Inr () \<and>
   refresh slim (snd (refresh slim st)) = refresh slim st"
proof (cases "disk st (name (self st))")
  case None
  then show ?thesis by (simp add: refresh_absent)
next
  case (Some stored)
  let ?st = "snd (refresh slim st)"
  from Some have eq: "refresh slim st = (Inr (), st\<lparr>self := (self st)\<lparr>cache :=
        Some (map replace_newline (readlines (universal_newlines stored)))\<rparr>\<rparr>)"
    by (rule refresh_present)
  then have "disk ?st (name (self ?st)) = Some stored"
    using Some by simp
  from refresh_present [OF this, of slim] eq show ?thesis by simp
qed

text \<open>
  C10. \<open>refresh\<close> with \<open>slim\<close> set does what \<open>refresh\<close> without it does, in every state:
  no line that \<open>readlines\<close> returns is the empty string, and on the lines of any text the
  loop with the filter gives the list that the loop without it gives, namely each line
  with its line feed removed.
\<close>

theorem refresh_slim_eq:
  "refresh True st = refresh False st \<and>
   [] \<notin> set (readlines s) \<and>
   refresh_loop True 0 (readlines s) = refresh_loop False 0 (readlines s) \<and>
   refresh_loop True 0 (readlines s) = map replace_newline (readlines s)"
proof -
  have "refresh True st = refresh False st"
    by (cases "disk st (name (self st))") (simp_all add: refresh_absent refresh_present)
  then show ?thesis
    by (simp add: readlines_nonempty refresh_loop_readlines)
qed

end
